theory Spec2Isabelle
  imports Main
begin

section \<open>The document store\<close>

text \<open>
  The server keeps two collections, \<open>users\<close> and \<open>lessons\<close>, in a document store.
  A collection is the list of its documents in insertion order. A document is a record of
  the fields the handlers read or write; every field a client payload may leave out is an
  \<open>option\<close>, \<open>None\<close> standing for a field that is absent or \<open>null\<close> (the store's
  equality filter \<open>{field: null}\<close> matches both, and the driver writes \<open>undefined\<close> as
  \<open>null\<close>).
\<close>

record user =
  email :: "string option"
  role :: "string option"
  isPremium :: "bool option"
  transactionId :: "string option"
  create_at :: "int option"

text \<open>
  \<open>collection.findOne(query)\<close> is \<^const>\<open>List.find\<close>: the first document that matches.
  \<open>collection.insertOne(doc)\<close> appends the document.
  \<open>collection.updateOne(query, update)\<close> changes the first document that matches and
  reports how many documents matched and how many changed.
  The store answers every call it is given a well-formed query for: of the \<open>catch\<close>
  branches of the handlers, the model has those a request can reach by itself (a malformed
  id, a rejected regular expression, a failing gateway call), not those only an unreachable
  store leads to. A request body is a JSON object.
\<close>

definition insertOne :: "'a \<Rightarrow> 'a list \<Rightarrow> 'a list" where
  "insertOne doc coll = coll @ [doc]"

record update_result =
  matchedCount :: nat
  modifiedCount :: nat

fun update_first :: "('a \<Rightarrow> bool) \<Rightarrow> ('a \<Rightarrow> 'a) \<Rightarrow> 'a list \<Rightarrow> 'a list" where
  "update_first P f [] = []"
| "update_first P f (x # xs) = (if P x then f x # xs else x # update_first P f xs)"

definition updateOne :: "('a \<Rightarrow> bool) \<Rightarrow> ('a \<Rightarrow> 'a) \<Rightarrow> 'a list \<Rightarrow> update_result \<times> 'a list" where
  "updateOne P f coll =
     (case find P coll of
        None \<Rightarrow> (\<lparr>matchedCount = 0, modifiedCount = 0\<rparr>, coll)
      | Some d \<Rightarrow>
          (\<lparr>matchedCount = 1, modifiedCount = (if f d = d then 0 else 1)\<rparr>,
           update_first P f coll))"

section \<open>JavaScript values\<close>

text \<open>
  \<open>v || d\<close> yields \<open>d\<close> when \<open>v\<close> is falsy. Of the values a string field can hold,
  \<open>undefined\<close>, \<open>null\<close> and the empty string are falsy; of a boolean field,
  \<open>undefined\<close>, \<open>null\<close> and \<open>false\<close>.
\<close>

definition truthy :: "string option \<Rightarrow> bool" where
  "truthy v = (case v of None \<Rightarrow> False | Some s \<Rightarrow> s \<noteq> [])"

definition or_string :: "string option \<Rightarrow> string \<Rightarrow> string" where
  "or_string v d = (case v of None \<Rightarrow> d | Some s \<Rightarrow> if s = [] then d else s)"

definition or_bool :: "bool option \<Rightarrow> bool \<Rightarrow> bool" where
  "or_bool v d = (case v of None \<Rightarrow> d | Some b \<Rightarrow> if b then True else d)"

section \<open>User handlers\<close>

subsection \<open>POST /users\<close>

text \<open>
  \<^verbatim>\<open>
  const user = req.body;
  user.create_at = new Date();
  user.role = "user";
  const email = user.email;
  const existingUser = await userCollection.findOne({ email: email });
  if (existingUser) {
    return res.status(200).json({ message: "User already exists", user: existingUser });
  }
  const result = await userCollection.insertOne(user);
  res.status(201).json({ message: "Data is stored to database", result });
  \<close>
  The request body is the payload as a \<^typ>\<open>user\<close> record; \<open>now\<close> is the clock read
  by \<open>new Date()\<close>, in milliseconds.
\<close>

datatype post_users_body =
    User_already_exists user
  | Data_is_stored_to_database

definition post_users :: "int \<Rightarrow> user \<Rightarrow> user list \<Rightarrow> (nat \<times> post_users_body) \<times> user list" where
  "post_users now body users =
     (let user = body\<lparr>create_at := Some now, role := Some ''user''\<rparr> in
      case find (\<lambda>u. email u = email user) users of
        Some existingUser \<Rightarrow> ((200, User_already_exists existingUser), users)
      | None \<Rightarrow> ((201, Data_is_stored_to_database), insertOne user users))"

subsection \<open>GET /users/:email/role\<close>

text \<open>
  \<^verbatim>\<open>
  const email = req.params.email;
  const user = await userCollection.findOne({ email: email });
  res.status(200).json({
    role: user?.role || "user",
    isPremium: user?.isPremium || false,
  });
  \<close>
\<close>

record role_body =
  role_of :: string
  isPremium_of :: bool

definition get_users_role :: "string \<Rightarrow> user list \<Rightarrow> nat \<times> role_body" where
  "get_users_role e users =
     (let user = find (\<lambda>u. email u = Some e) users in
      (200, \<lparr>role_of = or_string (Option.bind user role) ''user'',
             isPremium_of = or_bool (Option.bind user isPremium) False\<rparr>))"

section \<open>Authorization middleware\<close>

text \<open>
  A request carries its \<open>Authorization\<close> header and the two properties the middleware
  read, \<open>req.tokenEmail\<close> and \<open>req.decodedEmail\<close>; a property nothing has assigned is
  \<open>undefined\<close>, here \<open>None\<close>. A request as it arrives from the network has neither.
\<close>

record request =
  authorization :: "string option"
  tokenEmail :: "string option"
  decodedEmail :: "string option"

definition incoming :: "string option \<Rightarrow> request" where
  "incoming header = \<lparr>authorization = header, tokenEmail = None, decodedEmail = None\<rparr>"

text \<open>\<open>s.split(" ")\<close>: the pieces of \<open>s\<close> between single spaces, empty pieces kept.\<close>

fun split_on :: "char \<Rightarrow> string \<Rightarrow> string list" where
  "split_on c [] = [[]]"
| "split_on c (x # xs) =
     (if x = c then [] # split_on c xs
      else (case split_on c xs of [] \<Rightarrow> [[x]] | w # ws \<Rightarrow> (x # w) # ws))"

definition at_index :: "'a list \<Rightarrow> nat \<Rightarrow> 'a option" where
  "at_index xs i = (case drop i xs of [] \<Rightarrow> None | x # _ \<Rightarrow> Some x)"

text \<open>
  \<^verbatim>\<open>
  const verifyJWT = async (req, res, next) => {
    const token = req?.headers?.authorization?.split(" ")[1];
    if (!token) return res.status(401).send({ message: "Unauthorized Access!" });
    try {
      const decoded = await admin.auth().verifyIdToken(token);
      req.tokenEmail = decoded.email;
      next();
    } catch (err) {
      return res.status(401).send({ message: "Unauthorized Access!", err });
    }
  };
  \<close>
  The identity provider is the parameter \<open>verifyIdToken\<close>: \<open>None\<close> when it rejects the
  token, otherwise the \<open>email\<close> claim of the decoded token (which a token may lack).
  A middleware returns \<open>Inl status\<close> when it answers the request itself and \<open>Inr req\<close>
  when it calls \<open>next()\<close>. The three revisions of the server share this function.
\<close>

definition verifyJWT :: "(string \<Rightarrow> string option option) \<Rightarrow> request \<Rightarrow> nat + request" where
  "verifyJWT verifyIdToken req =
     (let token = Option.bind (authorization req) (\<lambda>h. at_index (split_on CHR '' '' h) 1) in
      if \<not> truthy token then Inl 401
      else (case Option.bind token verifyIdToken of
              None \<Rightarrow> Inl 401
            | Some decoded_email \<Rightarrow> Inr (req\<lparr>tokenEmail := decoded_email\<rparr>)))"

text \<open>
  The final revision:
  \<^verbatim>\<open>
  const verifyAdmin = async (req, res, next) => {
    const email = req.tokenEmail;
    const query = { email: email };
    const result = await userCollection.findOne(query);
    if (result?.role !== "admin") {
      return res.status(403).json({ message: "Forbidden access" });
    }
    next();
  };
  \<close>
\<close>

definition verifyAdmin :: "user list \<Rightarrow> request \<Rightarrow> nat + request" where
  "verifyAdmin users req =
     (let email' = tokenEmail req;
          result = find (\<lambda>u. email u = email') users in
      if Option.bind result role \<noteq> Some ''admin'' then Inl 403 else Inr req)"

text \<open>
  The two earlier revisions (\<open>index.js\<close> and the revision with the \<open>reports\<close> collection)
  differ in one line, \<^verbatim>\<open>const email = req.decodedEmail;\<close>, a property their
  \<open>verifyJWT\<close> never assigns.
\<close>

definition verifyAdmin_decodedEmail :: "user list \<Rightarrow> request \<Rightarrow> nat + request" where
  "verifyAdmin_decodedEmail users req =
     (let email' = decodedEmail req;
          result = find (\<lambda>u. email u = email') users in
      if Option.bind result role \<noteq> Some ''admin'' then Inl 403 else Inr req)"

text \<open>A route \<open>app.METHOD(path, verifyJWT, verifyAdmin, handler)\<close> runs the two in this order.\<close>

definition admin_chain ::
  "(user list \<Rightarrow> request \<Rightarrow> nat + request) \<Rightarrow> (string \<Rightarrow> string option option) \<Rightarrow>
   user list \<Rightarrow> request \<Rightarrow> nat + request" where
  "admin_chain verify_admin verifyIdToken users req =
     (case verifyJWT verifyIdToken req of
        Inl status \<Rightarrow> Inl status
      | Inr req' \<Rightarrow> verify_admin users req')"

section \<open>Payment handlers\<close>

subsection \<open>PATCH /session-status\<close>


text \<open>
  \<^verbatim>\<open>
  try {
    const sessionId = req.query.session_id;
    const session = await stripe.checkout.sessions.retrieve(sessionId);
    const transactionId = session.payment_intent;
    const query = { transactionId: transactionId };
    const existingPayment = await userCollection.findOne(query);
    if (existingPayment) {
      return res.send({ success: false, message: "Payment already processed",
                        transactionId: transactionId });
    }
    if (session.payment_status === "paid") {
      const userQuery = { email: session.customer_details.email };
      const update = { $set: { isPremium: true, transactionId: transactionId } };
      const result = await userCollection.updateOne(userQuery, update);
      res.status(200).json({ success: true, transactionId: transactionId, result });
    }
  } catch (error) {
    res.status(500).send({ error: "Failed to retrieve Stripe checkout session" });
  }
  \<close>
  The gateway is the parameter \<open>retrieve\<close>, \<open>None\<close> when the call throws. Reading
  \<open>.email\<close> of a null \<open>customer_details\<close> throws too. A session that is neither
  processed nor paid gets no response at all: the response is an \<open>option\<close>.
\<close>

record session_status_body =
  success :: bool
  message :: "string option"
  body_transactionId :: "string option"
  result :: "update_result option"



section \<open>Lesson handlers\<close>

text \<open>
  A lesson as the handlers below see it. \<open>lesson_id\<close> is the store's \<open>_id\<close>. A client
  sends \<open>createdAt\<close> as a string; the store can also hold a date (milliseconds).
  A comment is the object its revision of the handler builds: \<open>name\<close>, \<open>email\<close>,
  \<open>comment\<close> and \<open>createdAt\<close> in the final revision, \<open>userEmail\<close>, \<open>text\<close> and
  \<open>createdAt\<close> in the first.
\<close>

datatype stamp = Date_ms int | Date_string string

datatype comment =
    Comment "string option" string "string option" int
  | Comment_rev1 string "string option" int

record lesson =
  lesson_id :: string
  title :: "string option"
  category :: "string option"
  visibility :: "string option"
  accessLevel :: "string option"
  createdAt :: "stamp option"
  likes :: "string list option"
  comments :: "comment list option"

subsection \<open>GET /public-lessons\<close>

text \<open>
  \<^verbatim>\<open>
  const { limit = 6, skip = 0, category, visibility, search } = req.query;
  const query = { visibility: "public" };
  if (category) { query.category = category; }
  if (visibility) { query.visibility = visibility; }
  if (search) { query.title = { $regex: search, $options: "i" }; }
  const total = await lessonsCollection.countDocuments(query);
  const result = await lessonsCollection.find(query).sort({ createdAt: -1 })
    .skip(Number(skip)).limit(Number(limit)).toArray();
  res.status(200).json({ total, result });
  \<close>
  and \<^verbatim>\<open>res.status(500).json({ message: "Can't get lessons", ... })\<close> when the store
  throws. The query parameters are strings; \<open>skip\<close> and \<open>limit\<close> are taken as the natural
  numbers \<open>Number\<close> reads from them (an empty string reads as 0), \<open>None\<close> when the
  parameter is absent.
\<close>

record public_lessons_params =
  limit :: "nat option"
  skip :: "nat option"
  category_param :: "string option"
  visibility_param :: "string option"
  search :: "string option"

record lesson_query =
  query_visibility :: "string option"
  query_category :: "string option"
  query_title_regex :: "string option"

definition public_lessons_query :: "public_lessons_params \<Rightarrow> lesson_query" where
  "public_lessons_query p =
     (let query = \<lparr>query_visibility = Some ''public'', query_category = None,
                    query_title_regex = None\<rparr>;
          query = (if truthy (category_param p)
                   then query\<lparr>query_category := category_param p\<rparr> else query);
          query = (if truthy (visibility_param p)
                   then query\<lparr>query_visibility := visibility_param p\<rparr> else query);
          query = (if truthy (search p)
                   then query\<lparr>query_title_regex := search p\<rparr> else query)
      in query)"

text \<open>
  The store's side. The regular-expression engine is the parameter \<open>regex\<close>: a pattern
  compiles (with option \<open>i\<close>) to a test on strings, or is rejected, and then the store
  throws. The order of \<open>createdAt\<close> values is the parameter \<open>later\<close>; the sort is an
  insertion sort by it. \<open>cursor.limit(0)\<close> sets no limit.
\<close>

definition match_lessons ::
  "(string \<Rightarrow> (string \<Rightarrow> bool) option) \<Rightarrow> lesson_query \<Rightarrow> lesson list \<Rightarrow> lesson list option" where
  "match_lessons regex query coll =
     (case (case query_title_regex query of
              None \<Rightarrow> Some (\<lambda>l. True)
            | Some pattern \<Rightarrow>
                map_option (\<lambda>test l. case title l of None \<Rightarrow> False | Some t \<Rightarrow> test t)
                  (regex pattern)) of
        None \<Rightarrow> None
      | Some title_ok \<Rightarrow>
          Some (filter (\<lambda>l. visibility l = query_visibility query
                           \<and> (case query_category query of
                                 None \<Rightarrow> True
                               | Some c \<Rightarrow> category l = Some c)
                           \<and> title_ok l) coll))"

definition countDocuments ::
  "(string \<Rightarrow> (string \<Rightarrow> bool) option) \<Rightarrow> lesson_query \<Rightarrow> lesson list \<Rightarrow> nat option" where
  "countDocuments regex query coll = map_option length (match_lessons regex query coll)"

fun insert_desc :: "('a \<Rightarrow> 'a \<Rightarrow> bool) \<Rightarrow> 'a \<Rightarrow> 'a list \<Rightarrow> 'a list" where
  "insert_desc later x [] = [x]"
| "insert_desc later x (y # ys) =
     (if later y x then y # insert_desc later x ys else x # y # ys)"

definition sort_desc :: "('a \<Rightarrow> 'a \<Rightarrow> bool) \<Rightarrow> 'a list \<Rightarrow> 'a list" where
  "sort_desc later xs = foldr (insert_desc later) xs []"

definition cursor_skip :: "nat \<Rightarrow> 'a list \<Rightarrow> 'a list" where
  "cursor_skip n xs = drop n xs"

definition cursor_limit :: "nat \<Rightarrow> 'a list \<Rightarrow> 'a list" where
  "cursor_limit n xs = (if n = 0 then xs else take n xs)"

datatype public_lessons_response =
    Page (total: nat) (page: "lesson list")
  | Cant_get_lessons

definition get_public_lessons ::
  "(string \<Rightarrow> (string \<Rightarrow> bool) option) \<Rightarrow> (lesson \<Rightarrow> lesson \<Rightarrow> bool) \<Rightarrow>
   public_lessons_params \<Rightarrow> lesson list \<Rightarrow> nat \<times> public_lessons_response" where
  "get_public_lessons regex later p lessons =
     (let limit' = (case limit p of None \<Rightarrow> 6 | Some n \<Rightarrow> n);
          skip' = (case skip p of None \<Rightarrow> 0 | Some n \<Rightarrow> n);
          query = public_lessons_query p
      in case countDocuments regex query lessons of
           None \<Rightarrow> (500, Cant_get_lessons)
         | Some total' \<Rightarrow>
             (case match_lessons regex query lessons of
                None \<Rightarrow> (500, Cant_get_lessons)
              | Some found \<Rightarrow>
                  (200, Page total'
                     (cursor_limit limit' (cursor_skip skip' (sort_desc later found))))))"

subsection \<open>PATCH /lesson/:id/likes\<close>

text \<open>
  \<open>new ObjectId(id)\<close> is the parameter \<open>ObjectId\<close>: the id the string denotes, or
  \<open>None\<close> when the constructor throws on a malformed string. \<open>hex24\<close> is the
  constructor of the current driver: 24 hexadecimal digits, read without regard to case.
\<close>

definition lowercase :: "string \<Rightarrow> string" where
  "lowercase s =
     map (\<lambda>c. case map_of (zip ''ABCDEFGHIJKLMNOPQRSTUVWXYZ'' ''abcdefghijklmnopqrstuvwxyz'') c of
                None \<Rightarrow> c | Some d \<Rightarrow> d) s"

definition hex24 :: "string \<Rightarrow> string option" where
  "hex24 s =
     (if length s = 24 \<and> list_all (\<lambda>c. c \<in> set ''0123456789abcdefABCDEF'') s
      then Some (lowercase s) else None)"

text \<open>The update operators on an array field that may be absent.\<close>

definition array_includes :: "'a list option \<Rightarrow> 'a \<Rightarrow> bool" where
  "array_includes field x = (case field of None \<Rightarrow> False | Some xs \<Rightarrow> x \<in> set xs)"

definition pull :: "'a \<Rightarrow> 'a list option \<Rightarrow> 'a list option" where
  "pull x field = map_option (removeAll x) field"

definition addToSet :: "'a \<Rightarrow> 'a list option \<Rightarrow> 'a list option" where
  "addToSet x field =
     (case field of
        None \<Rightarrow> Some [x]
      | Some xs \<Rightarrow> if x \<in> set xs then Some xs else Some (xs @ [x]))"

definition push :: "'a \<Rightarrow> 'a list option \<Rightarrow> 'a list option" where
  "push x field = (case field of None \<Rightarrow> Some [x] | Some xs \<Rightarrow> Some (xs @ [x]))"

text \<open>
  \<^verbatim>\<open>
  try {
    const email = req.tokenEmail;
    const id = req.params.id;
    const query = { _id: new ObjectId(id) };
    const lesson = await lessonsCollection.findOne(query);
    if (!lesson) {
      return res.status(404).json({ message: "Lesson not found" });
    }
    let update = {};
    if (lesson.likes?.includes(email)) {
      update = { $pull: { likes: email } };
    } else {
      update = { $addToSet: { likes: email } };
    }
    const result = await lessonsCollection.updateOne(query, update);
    res.status(200).json({ message: "Like add successfully", result });
  } catch (error) {
    res.status(400).json({ message: "Failed to add  Like", error: error.message });
  }
  \<close>
  \<open>req.tokenEmail\<close> is the email of the verified principal, a string.
\<close>

datatype likes_body =
    Lesson_not_found
  | Like_add_successfully update_result
  | Failed_to_add_Like

definition patch_lesson_likes ::
  "(string \<Rightarrow> string option) \<Rightarrow> string \<Rightarrow> string \<Rightarrow> lesson list \<Rightarrow>
   (nat \<times> likes_body) \<times> lesson list" where
  "patch_lesson_likes ObjectId email' id' lessons =
     (case ObjectId id' of
        None \<Rightarrow> ((400, Failed_to_add_Like), lessons)
      | Some oid \<Rightarrow>
          (case find (\<lambda>l. lesson_id l = oid) lessons of
             None \<Rightarrow> ((404, Lesson_not_found), lessons)
           | Some lesson \<Rightarrow>
               (let update = (if array_includes (likes lesson) email'
                              then pull email' else addToSet email');
                    (r, lessons') = updateOne (\<lambda>l. lesson_id l = oid)
                                      (\<lambda>l. l\<lparr>likes := update (likes l)\<rparr>) lessons
                in ((200, Like_add_successfully r), lessons'))))"

subsection \<open>PATCH /lesson/:id/comments\<close>

text \<open>
  The final revision:
  \<^verbatim>\<open>
  try {
    const email = req.tokenEmail;
    const { comment, name } = req.body;
    const id = req.params.id;
    const query = { _id: new ObjectId(id) };
    const commentObj = { name, email, comment, createdAt: new Date() };
    const result = await lessonsCollection.updateOne(query, {
      $push: { comments: commentObj },
    });
    res.status(200).json({ message: "Comment added successfully", result });
  } catch (error) {
    res.status(400).json({ message: "Failed to add comment", error: error.message });
  }
  \<close>
  The first revision reads \<^verbatim>\<open>const { text } = req.body;\<close> and builds
  \<^verbatim>\<open>{ userEmail: email, text, createdAt: new Date() }\<close>; the rest is the same.
\<close>

record comment_payload =
  payload_comment :: "string option"
  payload_name :: "string option"
  payload_text :: "string option"

record comments_body =
  comments_message :: string
  comments_result :: "update_result option"

definition patch_lesson_comments ::
  "(string \<Rightarrow> string option) \<Rightarrow> int \<Rightarrow> string \<Rightarrow> comment_payload \<Rightarrow> string \<Rightarrow>
   lesson list \<Rightarrow> (nat \<times> comments_body) \<times> lesson list" where
  "patch_lesson_comments ObjectId now email' body id' lessons =
     (case ObjectId id' of
        None \<Rightarrow>
          ((400, \<lparr>comments_message = ''Failed to add comment'', comments_result = None\<rparr>),
           lessons)
      | Some oid \<Rightarrow>
          (let commentObj = Comment (payload_name body) email' (payload_comment body) now;
               (r, lessons') = updateOne (\<lambda>l. lesson_id l = oid)
                                 (\<lambda>l. l\<lparr>comments := push commentObj (comments l)\<rparr>) lessons
           in ((200, \<lparr>comments_message = ''Comment added successfully'',
                      comments_result = Some r\<rparr>), lessons')))"

definition patch_lesson_comments_rev1 ::
  "(string \<Rightarrow> string option) \<Rightarrow> int \<Rightarrow> string \<Rightarrow> comment_payload \<Rightarrow> string \<Rightarrow>
   lesson list \<Rightarrow> (nat \<times> comments_body) \<times> lesson list" where
  "patch_lesson_comments_rev1 ObjectId now email' body id' lessons =
     (case ObjectId id' of
        None \<Rightarrow>
          ((400, \<lparr>comments_message = ''Failed to add comment'', comments_result = None\<rparr>),
           lessons)
      | Some oid \<Rightarrow>
          (let commentObj = Comment_rev1 email' (payload_text body) now;
               (r, lessons') = updateOne (\<lambda>l. lesson_id l = oid)
                                 (\<lambda>l. l\<lparr>comments := push commentObj (comments l)\<rparr>) lessons
           in ((200, \<lparr>comments_message = ''Comment added successfully'',
                      comments_result = Some r\<rparr>), lessons')))"

subsection \<open>GET /analytics/accessLevel\<close>

text \<open>
  \<^verbatim>\<open>
  const endDate = new Date();
  endDate.setUTCHours(23, 59, 59, 999);
  const startDate = new Date();
  startDate.setUTCDate(startDate.getUTCDate() - 6);
  startDate.setUTCHours(0, 0, 0, 0);
  const data = await lessonsCollection.aggregate([
    { $match: { createdAt: { $gte: startDate, $lte: endDate }, visibility: "public" } },
    { $group: { _id: "$accessLevel", count: { $sum: 1 } } },
  ]).toArray();
  // Make sure both free and premium exist
  const result = ["free", "premium"].map((level) => {
    const found = data.find((d) => d._id === level);
    return { accessLevel: level, count: found ? found.count : 0 };
  });
  res.json(result);
  \<close>
  Times are milliseconds since the epoch. A comparison with a date matches dates only.
  \<open>$group\<close> yields one document per value of the key, here in the order of first
  occurrence (the store promises no order).
\<close>

definition ms_per_day :: int where
  "ms_per_day = 86400000"

definition startDate :: "int \<Rightarrow> int" where
  "startDate now = (now div ms_per_day - 6) * ms_per_day"

definition endDate :: "int \<Rightarrow> int" where
  "endDate now = now div ms_per_day * ms_per_day + (ms_per_day - 1)"

definition in_window :: "int \<Rightarrow> lesson \<Rightarrow> bool" where
  "in_window now l =
     (case createdAt l of
        Some (Date_ms t) \<Rightarrow> startDate now \<le> t \<and> t \<le> endDate now
      | _ \<Rightarrow> False)"

definition group_count :: "('a \<Rightarrow> 'k) \<Rightarrow> 'a list \<Rightarrow> ('k \<times> nat) list" where
  "group_count key xs =
     map (\<lambda>k. (k, length (filter (\<lambda>x. key x = k) xs))) (rev (remdups (rev (map key xs))))"

definition accessLevel_data :: "int \<Rightarrow> lesson list \<Rightarrow> (string option \<times> nat) list" where
  "accessLevel_data now lessons =
     group_count accessLevel
       (filter (\<lambda>l. in_window now l \<and> visibility l = Some ''public'') lessons)"

record accessLevel_entry =
  entry_accessLevel :: string
  entry_count :: nat

definition get_analytics_accessLevel :: "int \<Rightarrow> lesson list \<Rightarrow> nat \<times> accessLevel_entry list" where
  "get_analytics_accessLevel now lessons =
     (let data = accessLevel_data now lessons in
      (200, map (\<lambda>level.
                   (let found = find (\<lambda>d. fst d = Some level) data in
                    \<lparr>entry_accessLevel = level,
                     entry_count = (case found of None \<Rightarrow> 0 | Some d \<Rightarrow> snd d)\<rparr>))
              [''free'', ''premium'']))"

section \<open>Views and sample data\<close>

text \<open>The likes of a lesson as a set: an absent array holds nobody.\<close>

definition likes_set :: "lesson \<Rightarrow> string set" where
  "likes_set l = (case likes l of None \<Rightarrow> {} | Some xs \<Rightarrow> set xs)"

text \<open>Documents, payloads and collaborators the statements below are run on.\<close>

definition alice :: user where
  "alice = \<lparr>email = Some ''alice@x.com'', role = Some ''user'', isPremium = None,
            transactionId = None, create_at = Some 1000\<rparr>"

definition root :: user where
  "root = \<lparr>email = Some ''root@x.com'', role = Some ''admin'', isPremium = Some True,
           transactionId = None, create_at = Some 0\<rparr>"

definition blank :: user where
  "blank = \<lparr>email = Some ''blank@x.com'', role = Some '''', isPremium = Some False,
            transactionId = None, create_at = Some 2000\<rparr>"

definition bob_payload :: user where
  "bob_payload = \<lparr>email = Some ''bob@x.com'', role = None, isPremium = None,
                  transactionId = None, create_at = None\<rparr>"

definition mallory_payload :: user where
  "mallory_payload = \<lparr>email = Some ''mallory@x.com'', role = Some ''admin'',
                      isPremium = Some True, transactionId = None, create_at = None\<rparr>"

definition lesson_a :: lesson where
  "lesson_a = \<lparr>lesson_id = ''65a000000000000000000001'', title = Some ''Patience'',
               category = Some ''Career'', visibility = Some ''public'',
               accessLevel = Some ''free'', createdAt = Some (Date_string ''2025-12-01''),
               likes = Some [''bob@x.com''], comments = None\<rparr>"

definition lesson_b :: lesson where
  "lesson_b = \<lparr>lesson_id = ''65a000000000000000000002'', title = Some ''Silence'',
               category = Some ''Mindset'', visibility = Some ''private'',
               accessLevel = Some ''premium'', createdAt = Some (Date_ms 1764547200000),
               likes = None, comments = None\<rparr>"

definition lesson_c :: lesson where
  "lesson_c = \<lparr>lesson_id = ''65a000000000000000000003'', title = Some ''Courage'',
               category = Some ''Career'', visibility = Some ''public'',
               accessLevel = Some ''premium'', createdAt = Some (Date_ms 1764547200000),
               likes = Some [], comments = Some []\<rparr>"

text \<open>
  A small regular-expression engine: it compiles a pattern made of letters only, to the
  test for that text as a substring without regard to case, and rejects every other
  pattern. An order of \<open>createdAt\<close> values, as the store compares them: an absent value
  below every string, strings by their characters, every string below every date, dates
  by their time.
\<close>

fun contains :: "string \<Rightarrow> string \<Rightarrow> bool" where
  "contains pattern [] = (pattern = [])"
| "contains pattern (c # cs) = (take (length pattern) (c # cs) = pattern \<or> contains pattern cs)"

definition letters_regex :: "string \<Rightarrow> (string \<Rightarrow> bool) option" where
  "letters_regex pattern =
     (if list_all (\<lambda>c. c \<in> set ''abcdefghijklmnopqrstuvwxyzABCDEFGHIJKLMNOPQRSTUVWXYZ'') pattern
      then Some (\<lambda>t. contains (lowercase pattern) (lowercase t))
      else None)"

fun string_le :: "string \<Rightarrow> string \<Rightarrow> bool" where
  "string_le [] ys = True"
| "string_le (x # xs) [] = False"
| "string_le (x # xs) (y # ys) =
     ((of_char x :: nat) < of_char y \<or> (x = y \<and> string_le xs ys))"

definition newest_first :: "lesson \<Rightarrow> lesson \<Rightarrow> bool" where
  "newest_first a b =
     (case createdAt b of
        None \<Rightarrow> True
      | Some (Date_string t) \<Rightarrow>
          (case createdAt a of
             None \<Rightarrow> False
           | Some (Date_string s) \<Rightarrow> string_le t s
           | Some (Date_ms _) \<Rightarrow> True)
      | Some (Date_ms u) \<Rightarrow>
          (case createdAt a of Some (Date_ms t) \<Rightarrow> u \<le> t | _ \<Rightarrow> False))"

definition no_params :: public_lessons_params where
  "no_params = \<lparr>limit = None, skip = None, category_param = None,
                 visibility_param = None, search = None\<rparr>"






definition identity_provider :: "string \<Rightarrow> string option option" where
  "identity_provider token =
     (if token = ''root-token'' then Some (Some ''root@x.com'')
      else if token = ''alice-token'' then Some (Some ''alice@x.com'')
      else None)"


section \<open>Facts about the store\<close>

lemma find_None_iff_no_match: "find P xs = None \<longleftrightarrow> (\<forall>x \<in> set xs. \<not> P x)"
  by (induction xs) auto

lemma find_Some_member: "find P xs = Some x \<Longrightarrow> x \<in> set xs \<and> P x"
  by (induction xs) (auto split: if_splits)

lemma find_append_None: "find P xs = None \<Longrightarrow> find P (xs @ ys) = find P ys"
  by (induction xs) (auto split: if_splits)

lemma update_first_no_match: "find P xs = None \<Longrightarrow> update_first P f xs = xs"
  by (induction xs) (auto split: if_splits)

lemma update_first_map:
  "find P xs = Some d \<Longrightarrow> h (f d) = h d \<Longrightarrow> map h (update_first P f xs) = map h xs"
  by (induction xs) (auto split: if_splits)

lemma update_first_find:
  "find P xs = Some d \<Longrightarrow> P (f d) \<Longrightarrow> find P (update_first P f xs) = Some (f d)"
  by (induction xs) (auto split: if_splits)

lemma update_first_twice:
  "find P xs = Some d \<Longrightarrow> P (f d) \<Longrightarrow>
   update_first P g (update_first P f xs) = update_first P (\<lambda>x. g (f x)) xs"
  by (induction xs) (auto split: if_splits)


lemma find_keyed:
  "find (\<lambda>d. fst d = k) (map (\<lambda>j. (j, c j)) ks) = (if k \<in> set ks then Some (k, c k) else None)"
  by (induction ks) auto

lemma find_group_count:
  "find (\<lambda>d. fst d = k) (group_count key xs) =
     (if k \<in> key ` set xs then Some (k, length (filter (\<lambda>x. key x = k) xs)) else None)"
  unfolding group_count_def find_keyed by simp

lemma filter_empty_length: "k \<notin> key ` set xs \<Longrightarrow> length (filter (\<lambda>x. key x = k) xs) = 0"
  by (induction xs) auto

section \<open>Role lookup\<close>

text \<open>
  Claim C8, as amended. For every email, \<open>GET /users/:email/role\<close> answers 200. With no
  record of that email it reports role \<open>user\<close> and \<open>isPremium\<close> false. With a record it
  reports the record's role, or \<open>user\<close> when the field is absent or the empty string, and
  the record's premium flag, or false when the field is absent.
\<close>

theorem get_users_role_defaults:
  "fst (get_users_role e users) = 200 \<and>
   (case find (\<lambda>u. email u = Some e) users of
      None \<Rightarrow> snd (get_users_role e users) = \<lparr>role_of = ''user'', isPremium_of = False\<rparr>
    | Some u \<Rightarrow>
        role_of (snd (get_users_role e users)) =
          (case role u of None \<Rightarrow> ''user'' | Some r \<Rightarrow> if r = [] then ''user'' else r) \<and>
        isPremium_of (snd (get_users_role e users)) =
          (case isPremium u of None \<Rightarrow> False | Some b \<Rightarrow> b))"
  by (simp add: get_users_role_def or_string_def or_bool_def split: option.splits)

theorem get_users_role_defaults_witness:
  "get_users_role ''root@x.com'' [alice, root] = (200, \<lparr>role_of = ''admin'', isPremium_of = True\<rparr>) \<and>
   get_users_role ''nobody@x.com'' [alice, root] = (200, \<lparr>role_of = ''user'', isPremium_of = False\<rparr>)"
  using get_users_role_defaults [of "''root@x.com''" "[alice, root]"]
        get_users_role_defaults [of "''nobody@x.com''" "[alice, root]"]
  by (simp add: alice_def root_def prod_eq_iff)

text \<open>
  The claim as first stated promises the record's own role whenever the field is present.
  A record whose role is the empty string is reported as \<open>user\<close>.
\<close>

theorem get_users_role_empty_role_counterexample:
  "role blank = Some '''' \<and>
   get_users_role ''blank@x.com'' [blank] = (200, \<lparr>role_of = ''user'', isPremium_of = False\<rparr>)"
  by (simp add: get_users_role_def or_string_def or_bool_def blank_def)

section \<open>Registration\<close>

text \<open>
  Claim C3. Registration is idempotent by email. When a record with the payload's email
  exists, \<open>POST /users\<close> answers 200 with that record and leaves the collection as it
  was. A second registration with the email of a first one therefore finds a record,
  returns it and inserts nothing. A collection with no two records of the same email
  stays so under registration.
\<close>

theorem post_users_idempotent_by_email:
  "(find (\<lambda>u. email u = email body) users = Some existing \<longrightarrow>
      post_users now body users = ((200, User_already_exists existing), users)) \<and>
   (email body2 = email body \<longrightarrow>
      (\<exists>existing \<in> set (snd (post_users now body users)).
         email existing = email body \<and>
         post_users now2 body2 (snd (post_users now body users))
           = ((200, User_already_exists existing), snd (post_users now body users)))) \<and>
   (distinct (map email users) \<longrightarrow> distinct (map email (snd (post_users now body users))))"
proof (intro conjI impI)
  assume "find (\<lambda>u. email u = email body) users = Some existing"
  then show "post_users now body users = ((200, User_already_exists existing), users)"
    by (simp add: post_users_def)
next
  assume e: "email body2 = email body"
  show "\<exists>existing \<in> set (snd (post_users now body users)).
         email existing = email body \<and>
         post_users now2 body2 (snd (post_users now body users))
           = ((200, User_already_exists existing), snd (post_users now body users))"
  proof (cases "find (\<lambda>u. email u = email body) users")
    case None
    then have "find (\<lambda>u. email u = email body)
                 (users @ [body\<lparr>create_at := Some now, role := Some ''user''\<rparr>])
               = Some (body\<lparr>create_at := Some now, role := Some ''user''\<rparr>)"
      by (simp add: find_append_None)
    with None e show ?thesis
      by (simp add: post_users_def insertOne_def)
  next
    case (Some u)
    with e find_Some_member [OF Some] show ?thesis
      by (auto simp add: post_users_def)
  qed
next
  assume d: "distinct (map email users)"
  show "distinct (map email (snd (post_users now body users)))"
  proof (cases "find (\<lambda>u. email u = email body) users")
    case None
    then have "email body \<notin> email ` set users"
      by (auto simp add: find_None_iff_no_match)
    with None d show ?thesis
      by (simp add: post_users_def insertOne_def)
  next
    case (Some u)
    with d show ?thesis by (simp add: post_users_def)
  qed
qed

theorem post_users_idempotent_by_email_witness:
  "find (\<lambda>u. email u = email (alice\<lparr>isPremium := Some True\<rparr>)) [root, alice] = Some alice \<and>
   post_users 5000 (alice\<lparr>isPremium := Some True\<rparr>) [root, alice]
     = ((200, User_already_exists alice), [root, alice]) \<and>
   distinct (map email [root, alice]) \<and>
   distinct (map email (snd (post_users 5000 bob_payload [root, alice]))) \<and>
   length (snd (post_users 6000 mallory_payload (snd (post_users 5000 mallory_payload [root])))) = 2"
proof -
  have f: "find (\<lambda>u. email u = email (alice\<lparr>isPremium := Some True\<rparr>)) [root, alice] = Some alice"
    by (simp add: alice_def root_def)
  have d: "distinct (map email [root, alice])"
    by (simp add: alice_def root_def)
  note a = post_users_idempotent_by_email
             [of "alice\<lparr>isPremium := Some True\<rparr>" "[root, alice]" alice 5000
                 "alice\<lparr>isPremium := Some True\<rparr>" 5000]
  note b = post_users_idempotent_by_email
             [of bob_payload "[root, alice]" alice 5000 bob_payload 5000]
  note c = post_users_idempotent_by_email
             [of mallory_payload "[root]" root 5000 mallory_payload 6000]
  have l: "length (snd (post_users 5000 mallory_payload [root])) = 2"
    by (simp add: post_users_def insertOne_def mallory_payload_def root_def)
  from c l have "length (snd (post_users 6000 mallory_payload
                    (snd (post_users 5000 mallory_payload [root])))) = 2"
    by auto
  with a b f d show ?thesis by simp
qed

text \<open>
  Claim C6, as amended. For every payload whose email has no record, \<open>POST /users\<close>
  answers 201 and stores one new record: the payload with role \<open>user\<close> and the creation
  time, whatever role the payload carries. The handler does not write \<open>isPremium\<close>: the
  stored record carries the payload's field, and a record stored without one reads as not
  premium in role lookup.
\<close>

theorem post_users_stores_role_user:
  "find (\<lambda>u. email u = email body) users = None \<Longrightarrow>
   post_users now body users =
     ((201, Data_is_stored_to_database),
      users @ [body\<lparr>create_at := Some now, role := Some ''user''\<rparr>]) \<and>
   role (last (snd (post_users now body users))) = Some ''user'' \<and>
   create_at (last (snd (post_users now body users))) = Some now \<and>
   isPremium (last (snd (post_users now body users))) = isPremium body \<and>
   (isPremium body = None \<longrightarrow>
      (\<forall>e. email body = Some e \<longrightarrow>
         isPremium_of (snd (get_users_role e (snd (post_users now body users)))) = False))"
  by (auto simp add: post_users_def insertOne_def get_users_role_def find_append_None or_bool_def)

theorem post_users_stores_role_user_witness:
  "find (\<lambda>u. email u = email bob_payload) [root, alice] = None \<and>
   snd (post_users 5000 bob_payload [root, alice]) =
     [root, alice,
      \<lparr>email = Some ''bob@x.com'', role = Some ''user'', isPremium = None,
       transactionId = None, create_at = Some 5000\<rparr>] \<and>
   isPremium_of (snd (get_users_role ''bob@x.com'' (snd (post_users 5000 bob_payload [root, alice]))))
     = False"
proof -
  have f: "find (\<lambda>u. email u = email bob_payload) [root, alice] = None"
    by (simp add: bob_payload_def alice_def root_def)
  have e: "email bob_payload = Some ''bob@x.com''" "isPremium bob_payload = None"
    by (simp_all add: bob_payload_def)
  note t = post_users_stores_role_user [OF f, of 5000]
  have p: "snd (post_users 5000 bob_payload [root, alice]) =
             [root, alice,
              \<lparr>email = Some ''bob@x.com'', role = Some ''user'', isPremium = None,
               transactionId = None, create_at = Some 5000\<rparr>]"
    using t by (simp add: bob_payload_def)
  have q: "isPremium_of (snd (get_users_role ''bob@x.com''
             (snd (post_users 5000 bob_payload [root, alice])))) = False"
    using t e by blast
  from f p q show ?thesis by blast
qed

text \<open>
  The claim as first stated promises \<open>isPremium\<close> false whatever the payload carries.
  A payload that carries \<open>isPremium: true\<close> is stored premium, and read back so.
\<close>

theorem post_users_premium_payload_counterexample:
  "post_users 5000 mallory_payload [root] =
     ((201, Data_is_stored_to_database),
      [root,
       \<lparr>email = Some ''mallory@x.com'', role = Some ''user'', isPremium = Some True,
        transactionId = None, create_at = Some 5000\<rparr>]) \<and>
   get_users_role ''mallory@x.com'' (snd (post_users 5000 mallory_payload [root]))
     = (200, \<lparr>role_of = ''user'', isPremium_of = True\<rparr>)"
  by (simp add: post_users_def insertOne_def get_users_role_def or_string_def or_bool_def
        mallory_payload_def root_def)

section \<open>Public listing\<close>

lemma set_insert_desc: "set (insert_desc later x ys) = insert x (set ys)"
  by (induction ys) auto

lemma length_insert_desc: "length (insert_desc later x ys) = Suc (length ys)"
  by (induction ys) auto

lemma set_sort_desc: "set (sort_desc later xs) = set xs"
  unfolding sort_desc_def by (induction xs) (auto simp add: set_insert_desc)

lemma length_sort_desc: "length (sort_desc later xs) = length xs"
  unfolding sort_desc_def by (induction xs) (auto simp add: length_insert_desc)

lemma public_lessons_query_fields:
  "public_lessons_query p =
     \<lparr>query_visibility = Some (or_string (visibility_param p) ''public''),
      query_category = (if truthy (category_param p) then category_param p else None),
      query_title_regex = (if truthy (search p) then search p else None)\<rparr>"
  by (simp add: public_lessons_query_def or_string_def truthy_def Let_def split: option.splits)

lemma match_lessons_visibility:
  "match_lessons regex query coll = Some found \<Longrightarrow> l \<in> set found \<Longrightarrow>
   l \<in> set coll \<and> visibility l = query_visibility query"
  by (auto simp add: match_lessons_def split: option.splits)

lemma set_cursor: "set (cursor_limit n (cursor_skip m xs)) \<subseteq> set xs"
  by (auto simp add: cursor_limit_def cursor_skip_def dest: in_set_takeD in_set_dropD)

text \<open>The handler counts and finds with the same query, so the two calls fail together.\<close>

lemma get_public_lessons_cases:
  "get_public_lessons regex later p lessons =
     (case match_lessons regex (public_lessons_query p) lessons of
        None \<Rightarrow> (500, Cant_get_lessons)
      | Some found \<Rightarrow>
          (200, Page (length found)
             (cursor_limit (case limit p of None \<Rightarrow> 6 | Some n \<Rightarrow> n)
                (cursor_skip (case skip p of None \<Rightarrow> 0 | Some n \<Rightarrow> n)
                   (sort_desc later found)))))"
  by (simp add: get_public_lessons_def countDocuments_def Let_def split: option.splits)

text \<open>
  Claim C1, as amended. Whatever \<open>category\<close>, \<open>visibility\<close>, \<open>search\<close>, \<open>skip\<close> and
  \<open>limit\<close> a request to \<open>GET /public-lessons\<close> supplies, every lesson of the returned
  page is a lesson of the collection whose visibility equals the \<open>visibility\<close> parameter
  when a non-empty one is supplied, and \<open>public\<close> otherwise
  (\<open>visibility || "public"\<close>).
\<close>

theorem get_public_lessons_visibility:
  "get_public_lessons regex later p lessons = (200, Page n ls) \<Longrightarrow>
   \<forall>l \<in> set ls. l \<in> set lessons \<and>
                visibility l = Some (or_string (visibility_param p) ''public'')"
proof
  fix l
  assume a: "get_public_lessons regex later p lessons = (200, Page n ls)" and l: "l \<in> set ls"
  from a obtain found where f: "match_lessons regex (public_lessons_query p) lessons = Some found"
    and ls: "ls = cursor_limit (case limit p of None \<Rightarrow> 6 | Some n \<Rightarrow> n)
                (cursor_skip (case skip p of None \<Rightarrow> 0 | Some n \<Rightarrow> n) (sort_desc later found))"
    by (auto simp add: get_public_lessons_cases split: option.splits)
  from l ls have "l \<in> set (sort_desc later found)"
    using set_cursor [of _ _ "sort_desc later found"] by auto
  then have "l \<in> set found" by (simp add: set_sort_desc)
  from match_lessons_visibility [OF f this]
  show "l \<in> set lessons \<and> visibility l = Some (or_string (visibility_param p) ''public'')"
    by (simp add: public_lessons_query_fields)
qed

lemma public_lessons_search_example:
  "get_public_lessons letters_regex newest_first (no_params\<lparr>search := Some ''UR''\<rparr>)
     [lesson_a, lesson_b, lesson_c] = (200, Page 1 [lesson_c])"
  by (simp add: get_public_lessons_cases match_lessons_def public_lessons_query_fields
        no_params_def truthy_def or_string_def letters_regex_def lowercase_def
        lesson_a_def lesson_b_def lesson_c_def sort_desc_def cursor_limit_def cursor_skip_def)

theorem get_public_lessons_visibility_witness:
  "get_public_lessons letters_regex newest_first (no_params\<lparr>search := Some ''UR''\<rparr>)
     [lesson_a, lesson_b, lesson_c] = (200, Page 1 [lesson_c]) \<and>
   visibility lesson_c = Some ''public''"
proof -
  from get_public_lessons_visibility [OF public_lessons_search_example]
  have "visibility lesson_c
          = Some (or_string (visibility_param (no_params\<lparr>search := Some ''UR''\<rparr>)) ''public'')"
    by simp
  then have "visibility lesson_c = Some ''public''"
    by (simp add: no_params_def or_string_def)
  with public_lessons_search_example show ?thesis by blast
qed

text \<open>
  The claim as first stated promises public lessons only, whatever the parameters.
  With \<open>visibility=private\<close> the page holds the private lesson, and only that.
\<close>

theorem get_public_lessons_private_counterexample:
  "get_public_lessons letters_regex newest_first (no_params\<lparr>visibility_param := Some ''private''\<rparr>)
     [lesson_a, lesson_b, lesson_c] = (200, Page 1 [lesson_b]) \<and>
   visibility lesson_b = Some ''private''"
  by (simp add: get_public_lessons_cases match_lessons_def public_lessons_query_fields
        no_params_def truthy_def or_string_def
        lesson_a_def lesson_b_def lesson_c_def sort_desc_def cursor_limit_def cursor_skip_def)

text \<open>
  Claim C7, as amended. For every request to \<open>GET /public-lessons\<close> that is answered
  with a page: when \<open>limit\<close> is absent or at least 1, the page has at most \<open>limit\<close>
  lessons (6 when absent); \<open>limit=0\<close> sets no limit, and the page then holds every
  matching lesson after the first \<open>skip\<close>; the total is the number of lessons that match
  the filter, which is the length of the page the same request gets with no skip and no
  limit.
\<close>

theorem get_public_lessons_pagination:
  "get_public_lessons regex later p lessons = (200, Page n ls) \<Longrightarrow>
   (limit p \<noteq> Some 0 \<longrightarrow> length ls \<le> (case limit p of None \<Rightarrow> 6 | Some k \<Rightarrow> k)) \<and>
   (limit p = Some 0 \<longrightarrow> length ls = n - (case skip p of None \<Rightarrow> 0 | Some k \<Rightarrow> k)) \<and>
   length ls \<le> n \<and>
   (\<exists>found. match_lessons regex (public_lessons_query p) lessons = Some found \<and>
            n = length found) \<and>
   (\<exists>everything. get_public_lessons regex later (p\<lparr>skip := None, limit := Some 0\<rparr>) lessons
                    = (200, Page n everything) \<and> length everything = n)"
proof -
  assume a: "get_public_lessons regex later p lessons = (200, Page n ls)"
  have q: "public_lessons_query (p\<lparr>skip := None, limit := Some 0\<rparr>) = public_lessons_query p"
    by (simp add: public_lessons_query_fields)
  from a obtain found where f: "match_lessons regex (public_lessons_query p) lessons = Some found"
    and n: "n = length found"
    and ls: "ls = cursor_limit (case limit p of None \<Rightarrow> 6 | Some n \<Rightarrow> n)
                (cursor_skip (case skip p of None \<Rightarrow> 0 | Some n \<Rightarrow> n) (sort_desc later found))"
    by (auto simp add: get_public_lessons_cases split: option.splits)
  have e: "get_public_lessons regex later (p\<lparr>skip := None, limit := Some 0\<rparr>) lessons
             = (200, Page n (sort_desc later found))"
    by (simp add: get_public_lessons_cases q f n cursor_limit_def cursor_skip_def)
  show ?thesis
    using f n ls e
    by (auto simp add: cursor_limit_def cursor_skip_def length_sort_desc split: option.splits)
qed

lemma public_lessons_page_example:
  "get_public_lessons letters_regex newest_first (no_params\<lparr>limit := Some 1, skip := Some 1\<rparr>)
     [lesson_a, lesson_b, lesson_c] = (200, Page 2 [lesson_a])"
  by (simp add: get_public_lessons_cases match_lessons_def public_lessons_query_fields
        no_params_def truthy_def or_string_def newest_first_def
        lesson_a_def lesson_b_def lesson_c_def sort_desc_def cursor_limit_def cursor_skip_def)

theorem get_public_lessons_pagination_witness:
  "get_public_lessons letters_regex newest_first (no_params\<lparr>limit := Some 1, skip := Some 1\<rparr>)
     [lesson_a, lesson_b, lesson_c] = (200, Page 2 [lesson_a]) \<and>
   length [lesson_a] \<le> 1 \<and>
   (\<exists>everything.
      get_public_lessons letters_regex newest_first
        (no_params\<lparr>limit := Some 1, skip := Some 1\<rparr>\<lparr>skip := None, limit := Some 0\<rparr>)
        [lesson_a, lesson_b, lesson_c] = (200, Page 2 everything) \<and> length everything = 2)"
  using get_public_lessons_pagination [OF public_lessons_page_example]
        public_lessons_page_example
  by simp

text \<open>
  The claim as first stated bounds the page by \<open>limit\<close> for every \<open>limit\<close>. With
  \<open>limit=0\<close> the page holds both public lessons.
\<close>

theorem get_public_lessons_limit_zero_counterexample:
  "limit (no_params\<lparr>limit := Some 0\<rparr>) = Some 0 \<and>
   get_public_lessons letters_regex newest_first (no_params\<lparr>limit := Some 0\<rparr>)
     [lesson_a, lesson_b, lesson_c] = (200, Page 2 [lesson_c, lesson_a]) \<and>
   \<not> length [lesson_c, lesson_a] \<le> 0"
  by (simp add: get_public_lessons_cases match_lessons_def public_lessons_query_fields
        no_params_def truthy_def or_string_def newest_first_def
        lesson_a_def lesson_b_def lesson_c_def sort_desc_def cursor_limit_def cursor_skip_def)

section \<open>Like toggle\<close>

lemma toggle_likes_set:
  "likes_set (l\<lparr>likes := (if array_includes (likes l) e then pull e else addToSet e) (likes l)\<rparr>)
   = (if e \<in> likes_set l then likes_set l - {e} else insert e (likes_set l))"
  by (auto simp add: likes_set_def array_includes_def pull_def addToSet_def split: option.splits)

text \<open>
  Claim C4, as amended. For every lesson the id resolves to and every principal email,
  \<open>PATCH /lesson/:id/likes\<close> answers 200; the first call adds the email to the lesson's
  likes iff it was absent and removes it iff it was present; two calls in succession
  leave the likes of every lesson, as sets, and every other field as they were. For every
  well-formed id that resolves to no lesson the call answers 404 and changes no lesson.
  A malformed id is answered with 400, and changes no lesson either.
\<close>

theorem patch_lesson_likes_toggle:
  "(ObjectId id' = None \<longrightarrow>
      patch_lesson_likes ObjectId e id' lessons = ((400, Failed_to_add_Like), lessons)) \<and>
   (\<forall>oid. ObjectId id' = Some oid \<longrightarrow>
      (find (\<lambda>l. lesson_id l = oid) lessons = None \<longrightarrow>
         patch_lesson_likes ObjectId e id' lessons = ((404, Lesson_not_found), lessons)) \<and>
      (\<forall>l. find (\<lambda>l. lesson_id l = oid) lessons = Some l \<longrightarrow>
         fst (fst (patch_lesson_likes ObjectId e id' lessons)) = 200 \<and>
         (\<exists>l1. find (\<lambda>l. lesson_id l = oid) (snd (patch_lesson_likes ObjectId e id' lessons))
                  = Some l1 \<and>
               likes_set l1 = (if e \<in> likes_set l then likes_set l - {e}
                               else insert e (likes_set l))) \<and>
         map likes_set
           (snd (patch_lesson_likes ObjectId e id'
                   (snd (patch_lesson_likes ObjectId e id' lessons))))
           = map likes_set lessons \<and>
         map (\<lambda>l. l\<lparr>likes := None\<rparr>)
           (snd (patch_lesson_likes ObjectId e id'
                   (snd (patch_lesson_likes ObjectId e id' lessons))))
           = map (\<lambda>l. l\<lparr>likes := None\<rparr>) lessons))"
proof (intro conjI allI impI)
  assume "ObjectId id' = None"
  then show "patch_lesson_likes ObjectId e id' lessons = ((400, Failed_to_add_Like), lessons)"
    by (simp add: patch_lesson_likes_def)
next
  fix oid
  assume "ObjectId id' = Some oid" "find (\<lambda>l. lesson_id l = oid) lessons = None"
  then show "patch_lesson_likes ObjectId e id' lessons = ((404, Lesson_not_found), lessons)"
    by (simp add: patch_lesson_likes_def)
next
  fix oid l
  assume o: "ObjectId id' = Some oid" and f: "find (\<lambda>l. lesson_id l = oid) lessons = Some l"
  define t where
    "t = (\<lambda>x::lesson. x\<lparr>likes := (if array_includes (likes l) e then pull e
                                  else addToSet e) (likes x)\<rparr>)"
  define once where "once = update_first (\<lambda>l. lesson_id l = oid) t lessons"
  have id_l: "lesson_id l = oid" using find_Some_member [OF f] by simp
  have r1: "patch_lesson_likes ObjectId e id' lessons =
              ((200, Like_add_successfully
                       \<lparr>matchedCount = 1, modifiedCount = (if t l = l then 0 else 1)\<rparr>), once)"
    using o f by (simp add: patch_lesson_likes_def updateOne_def once_def t_def)
  have f1: "find (\<lambda>l. lesson_id l = oid) once = Some (t l)"
    unfolding once_def using f id_l by (intro update_first_find) (simp_all add: t_def)
  have tl: "likes_set (t l) = (if e \<in> likes_set l then likes_set l - {e}
                               else insert e (likes_set l))"
    unfolding t_def by (rule toggle_likes_set)
  define t2 where
    "t2 = (\<lambda>x::lesson. x\<lparr>likes := (if array_includes (likes (t l)) e then pull e
                                   else addToSet e) (likes x)\<rparr>)"
  have r2: "snd (patch_lesson_likes ObjectId e id' once)
              = update_first (\<lambda>l. lesson_id l = oid) t2 once"
    using o f1 by (simp add: patch_lesson_likes_def updateOne_def t2_def Let_def)
  have tw: "update_first (\<lambda>l. lesson_id l = oid) t2 once
              = update_first (\<lambda>l. lesson_id l = oid) (\<lambda>x. t2 (t x)) lessons"
    unfolding once_def using f id_l by (intro update_first_twice) (simp_all add: t_def)
  have t2tl: "likes_set (t2 (t l)) = likes_set l"
    using toggle_likes_set [of "t l" e] tl by (auto simp add: t2_def)
  have t2tr: "(t2 (t l))\<lparr>likes := None\<rparr> = l\<lparr>likes := None\<rparr>"
    by (simp add: t2_def t_def)
  show "fst (fst (patch_lesson_likes ObjectId e id' lessons)) = 200"
    using r1 by simp
  show "\<exists>l1. find (\<lambda>l. lesson_id l = oid) (snd (patch_lesson_likes ObjectId e id' lessons))
               = Some l1 \<and>
             likes_set l1 = (if e \<in> likes_set l then likes_set l - {e}
                             else insert e (likes_set l))"
    using r1 f1 tl by simp
  show "map likes_set
          (snd (patch_lesson_likes ObjectId e id'
                  (snd (patch_lesson_likes ObjectId e id' lessons))))
        = map likes_set lessons"
    using r1 r2 tw update_first_map [OF f, of likes_set "\<lambda>x. t2 (t x)"] t2tl by simp
  show "map (\<lambda>l. l\<lparr>likes := None\<rparr>)
          (snd (patch_lesson_likes ObjectId e id'
                  (snd (patch_lesson_likes ObjectId e id' lessons))))
        = map (\<lambda>l. l\<lparr>likes := None\<rparr>) lessons"
    using r1 r2 tw update_first_map [OF f, of "\<lambda>l. l\<lparr>likes := None\<rparr>" "\<lambda>x. t2 (t x)"] t2tr
    by simp
qed

lemma hex24_examples:
  "hex24 ''65A000000000000000000001'' = Some ''65a000000000000000000001''"
  "hex24 ''65a000000000000000000009'' = Some ''65a000000000000000000009''"
  "hex24 ''abc'' = None"
  by (simp_all add: hex24_def lowercase_def)

theorem patch_lesson_likes_toggle_witness:
  "hex24 ''65A000000000000000000001'' = Some ''65a000000000000000000001'' \<and>
   find (\<lambda>l. lesson_id l = ''65a000000000000000000001'') [lesson_a, lesson_b] = Some lesson_a \<and>
   map likes_set
     (snd (patch_lesson_likes hex24 ''alice@x.com'' ''65A000000000000000000001''
        (snd (patch_lesson_likes hex24 ''alice@x.com'' ''65A000000000000000000001''
                [lesson_a, lesson_b]))))
     = map likes_set [lesson_a, lesson_b] \<and>
   hex24 ''65a000000000000000000009'' = Some ''65a000000000000000000009'' \<and>
   find (\<lambda>l. lesson_id l = ''65a000000000000000000009'') [lesson_a, lesson_b] = None \<and>
   patch_lesson_likes hex24 ''alice@x.com'' ''65a000000000000000000009'' [lesson_a, lesson_b]
     = ((404, Lesson_not_found), [lesson_a, lesson_b]) \<and>
   hex24 ''abc'' = None \<and>
   patch_lesson_likes hex24 ''alice@x.com'' ''abc'' [lesson_a, lesson_b]
     = ((400, Failed_to_add_Like), [lesson_a, lesson_b])"
proof -
  have fa: "find (\<lambda>l. lesson_id l = ''65a000000000000000000001'') [lesson_a, lesson_b]
              = Some lesson_a"
    by (simp add: lesson_a_def)
  have fn: "find (\<lambda>l. lesson_id l = ''65a000000000000000000009'') [lesson_a, lesson_b] = None"
    by (simp add: lesson_a_def lesson_b_def)
  note a = patch_lesson_likes_toggle
             [of hex24 "''65A000000000000000000001''" "''alice@x.com''" "[lesson_a, lesson_b]"]
  note b = patch_lesson_likes_toggle
             [of hex24 "''65a000000000000000000009''" "''alice@x.com''" "[lesson_a, lesson_b]"]
  note c = patch_lesson_likes_toggle
             [of hex24 "''abc''" "''alice@x.com''" "[lesson_a, lesson_b]"]
  from a hex24_examples(1) fa
  have 1: "map likes_set
     (snd (patch_lesson_likes hex24 ''alice@x.com'' ''65A000000000000000000001''
        (snd (patch_lesson_likes hex24 ''alice@x.com'' ''65A000000000000000000001''
                [lesson_a, lesson_b]))))
     = map likes_set [lesson_a, lesson_b]"
    by blast
  from b hex24_examples(2) fn
  have 2: "patch_lesson_likes hex24 ''alice@x.com'' ''65a000000000000000000009''
             [lesson_a, lesson_b] = ((404, Lesson_not_found), [lesson_a, lesson_b])"
    by blast
  from c hex24_examples(3)
  have 3: "patch_lesson_likes hex24 ''alice@x.com'' ''abc'' [lesson_a, lesson_b]
             = ((400, Failed_to_add_Like), [lesson_a, lesson_b])"
    by blast
  from 1 2 3 fa fn hex24_examples show ?thesis by blast
qed

text \<open>
  The claim as first stated promises 404 for every id that resolves to no lesson. The id
  \<open>abc\<close> resolves to no lesson, and the answer is 400.
\<close>

theorem patch_lesson_likes_malformed_id_counterexample:
  "find (\<lambda>l. lesson_id l = ''abc'') [lesson_a, lesson_b] = None \<and>
   patch_lesson_likes hex24 ''alice@x.com'' ''abc'' [lesson_a, lesson_b]
     = ((400, Failed_to_add_Like), [lesson_a, lesson_b])"
  by (simp add: patch_lesson_likes_def hex24_def lesson_a_def lesson_b_def)

section \<open>Comments\<close>

text \<open>
  Claim C10. For every well-formed lesson id that resolves to no lesson,
  \<open>PATCH /lesson/:id/comments\<close> answers 200 with the message
  \<open>Comment added successfully\<close> (the update matched nothing) and leaves the lessons
  collection as it was, in the final revision and in the first; neither answers 404.
\<close>

theorem patch_lesson_comments_missing_lesson:
  "ObjectId id' = Some oid \<Longrightarrow> find (\<lambda>l. lesson_id l = oid) lessons = None \<Longrightarrow>
   patch_lesson_comments ObjectId now e body id' lessons =
     ((200, \<lparr>comments_message = ''Comment added successfully'',
             comments_result = Some \<lparr>matchedCount = 0, modifiedCount = 0\<rparr>\<rparr>), lessons) \<and>
   patch_lesson_comments_rev1 ObjectId now e body id' lessons =
     ((200, \<lparr>comments_message = ''Comment added successfully'',
             comments_result = Some \<lparr>matchedCount = 0, modifiedCount = 0\<rparr>\<rparr>), lessons)"
  by (simp add: patch_lesson_comments_def patch_lesson_comments_rev1_def updateOne_def)

theorem patch_lesson_comments_missing_lesson_witness:
  "hex24 ''65a000000000000000000009'' = Some ''65a000000000000000000009'' \<and>
   find (\<lambda>l. lesson_id l = ''65a000000000000000000009'') [lesson_a, lesson_b] = None \<and>
   patch_lesson_comments hex24 7000 ''alice@x.com''
       \<lparr>payload_comment = Some ''Thanks'', payload_name = Some ''Alice'', payload_text = None\<rparr>
       ''65a000000000000000000009'' [lesson_a, lesson_b] =
     ((200, \<lparr>comments_message = ''Comment added successfully'',
             comments_result = Some \<lparr>matchedCount = 0, modifiedCount = 0\<rparr>\<rparr>),
      [lesson_a, lesson_b])"
proof -
  have fn: "find (\<lambda>l. lesson_id l = ''65a000000000000000000009'') [lesson_a, lesson_b] = None"
    by (simp add: lesson_a_def lesson_b_def)
  from patch_lesson_comments_missing_lesson [of hex24, OF hex24_examples(2) fn]
       hex24_examples(2) fn
  show ?thesis by blast
qed

section \<open>Access-level analytics\<close>

text \<open>
  Claim C9. For every state of the lessons collection and every time of the call, the
  response of \<open>GET /analytics/accessLevel\<close> has exactly two entries, \<open>free\<close> then
  \<open>premium\<close>, each with the number of public lessons of that access level created in
  the window; a level with no such lesson is present with count 0.
\<close>

theorem get_analytics_accessLevel_both_levels:
  "get_analytics_accessLevel now lessons =
     (200,
      [\<lparr>entry_accessLevel = ''free'',
        entry_count = length (filter (\<lambda>l. in_window now l \<and> visibility l = Some ''public''
                                           \<and> accessLevel l = Some ''free'') lessons)\<rparr>,
       \<lparr>entry_accessLevel = ''premium'',
        entry_count = length (filter (\<lambda>l. in_window now l \<and> visibility l = Some ''public''
                                           \<and> accessLevel l = Some ''premium'') lessons)\<rparr>])"
proof -
  have c: "(case find (\<lambda>d. fst d = Some k) (accessLevel_data now lessons) of
              None \<Rightarrow> 0 | Some d \<Rightarrow> snd d)
           = length (filter (\<lambda>l. in_window now l \<and> visibility l = Some ''public''
                                  \<and> accessLevel l = Some k) lessons)" for k
  proof -
    let ?Q = "\<lambda>l. in_window now l \<and> visibility l = Some ''public''"
    have n: "length (filter (\<lambda>x. accessLevel x = Some k) (filter ?Q lessons))
             = length (filter (\<lambda>l. in_window now l \<and> visibility l = Some ''public''
                                    \<and> accessLevel l = Some k) lessons)"
      by simp
    show ?thesis
      unfolding accessLevel_data_def find_group_count
      using n filter_empty_length [of "Some k" accessLevel "filter ?Q lessons"]
      by (simp split: if_splits)
  qed
  show ?thesis
    unfolding get_analytics_accessLevel_def Let_def
    by (simp add: c)
qed

theorem get_analytics_accessLevel_both_levels_witness:
  "get_analytics_accessLevel 1764600000000 [lesson_a, lesson_b, lesson_c] =
     (200, [\<lparr>entry_accessLevel = ''free'', entry_count = 0\<rparr>,
            \<lparr>entry_accessLevel = ''premium'', entry_count = 1\<rparr>]) \<and>
   get_analytics_accessLevel 1764600000000 [] =
     (200, [\<lparr>entry_accessLevel = ''free'', entry_count = 0\<rparr>,
            \<lparr>entry_accessLevel = ''premium'', entry_count = 0\<rparr>])"
  using get_analytics_accessLevel_both_levels [of 1764600000000 "[lesson_a, lesson_b, lesson_c]"]
        get_analytics_accessLevel_both_levels [of 1764600000000 "[]"]
  by (simp add: in_window_def startDate_def endDate_def ms_per_day_def
        lesson_a_def lesson_b_def lesson_c_def)

section \<open>Payment reconciliation\<close>








section \<open>Admin check\<close>

text \<open>
  The final revision answers 403 exactly when the principal's record is missing or its
  role is not \<open>admin\<close>, and otherwise passes the request on.
\<close>

lemma verifyAdmin_cases:
  "verifyAdmin users req =
     (case find (\<lambda>u. email u = tokenEmail req) users of
        None \<Rightarrow> Inl 403
      | Some u \<Rightarrow> if role u = Some ''admin'' then Inr req else Inl 403)"
  by (simp add: verifyAdmin_def split: option.splits)

text \<open>A request that passes \<open>verifyJWT\<close> carries the email the identity provider decoded.\<close>

lemma verifyJWT_tokenEmail:
  "verifyJWT verifyIdToken req0 = Inr req \<Longrightarrow>
   req = req0\<lparr>tokenEmail := tokenEmail req\<rparr> \<and>
   (\<exists>token. verifyIdToken token = Some (tokenEmail req))"
  by (auto simp add: verifyJWT_def Let_def truthy_def
      split: option.splits if_splits bind_splits)

text \<open>
  Claim C5. For every request that has passed \<open>verifyJWT\<close>, the \<open>verifyAdmin\<close> the
  routes of the server run answers 403 if and only if the user record of the verified
  principal (the record found by the email the identity provider decoded) is missing or
  its role is not \<open>admin\<close>; whenever the record exists with role \<open>admin\<close> the request
  goes on to the handler, unchanged.
\<close>

theorem verifyAdmin_forbidden_iff:
  "verifyJWT verifyIdToken req0 = Inr req \<Longrightarrow>
   (\<exists>token. verifyIdToken token = Some (tokenEmail req)) \<and>
   admin_chain verifyAdmin verifyIdToken users req0 = verifyAdmin users req \<and>
   (verifyAdmin users req = Inl 403 \<longleftrightarrow>
      (case find (\<lambda>u. email u = tokenEmail req) users of
         None \<Rightarrow> True
       | Some u \<Rightarrow> role u \<noteq> Some ''admin'')) \<and>
   (\<forall>u. find (\<lambda>u. email u = tokenEmail req) users = Some u \<and> role u = Some ''admin'' \<longrightarrow>
        verifyAdmin users req = Inr req) \<and>
   (verifyAdmin users req = Inl 403 \<or> verifyAdmin users req = Inr req)"
proof (intro conjI allI impI)
  assume v: "verifyJWT verifyIdToken req0 = Inr req"
  from verifyJWT_tokenEmail [OF v]
  show "\<exists>token. verifyIdToken token = Some (tokenEmail req)" by simp
  from v show "admin_chain verifyAdmin verifyIdToken users req0 = verifyAdmin users req"
    by (simp add: admin_chain_def)
  show "verifyAdmin users req = Inl 403 \<longleftrightarrow>
          (case find (\<lambda>u. email u = tokenEmail req) users of
             None \<Rightarrow> True
           | Some u \<Rightarrow> role u \<noteq> Some ''admin'')"
    by (simp add: verifyAdmin_cases split: option.splits)
  show "verifyAdmin users req = Inl 403 \<or> verifyAdmin users req = Inr req"
    by (simp add: verifyAdmin_cases split: option.splits)
next
  fix u
  assume "find (\<lambda>u. email u = tokenEmail req) users = Some u \<and> role u = Some ''admin''"
  then show "verifyAdmin users req = Inr req"
    by (simp add: verifyAdmin_cases)
qed

lemma verifyJWT_examples:
  "verifyJWT identity_provider (incoming (Some ''Bearer root-token''))
     = Inr \<lparr>authorization = Some ''Bearer root-token'', tokenEmail = Some ''root@x.com'',
            decodedEmail = None\<rparr>"
  "verifyJWT identity_provider (incoming (Some ''Bearer alice-token''))
     = Inr \<lparr>authorization = Some ''Bearer alice-token'', tokenEmail = Some ''alice@x.com'',
            decodedEmail = None\<rparr>"
  "verifyJWT identity_provider (incoming (Some ''Bearer'')) = Inl 401"
  by (simp_all add: verifyJWT_def incoming_def identity_provider_def at_index_def truthy_def)

theorem verifyAdmin_forbidden_iff_witness:
  "verifyJWT identity_provider (incoming (Some ''Bearer root-token''))
     = Inr \<lparr>authorization = Some ''Bearer root-token'', tokenEmail = Some ''root@x.com'',
            decodedEmail = None\<rparr> \<and>
   find (\<lambda>u. email u = Some ''root@x.com'') [alice, root] = Some root \<and>
   role root = Some ''admin'' \<and>
   verifyAdmin [alice, root]
     \<lparr>authorization = Some ''Bearer root-token'', tokenEmail = Some ''root@x.com'',
      decodedEmail = None\<rparr>
     = Inr \<lparr>authorization = Some ''Bearer root-token'', tokenEmail = Some ''root@x.com'',
            decodedEmail = None\<rparr> \<and>
   verifyJWT identity_provider (incoming (Some ''Bearer alice-token''))
     = Inr \<lparr>authorization = Some ''Bearer alice-token'', tokenEmail = Some ''alice@x.com'',
            decodedEmail = None\<rparr> \<and>
   find (\<lambda>u. email u = Some ''alice@x.com'') [alice, root] = Some alice \<and>
   role alice = Some ''user'' \<and>
   verifyAdmin [alice, root]
     \<lparr>authorization = Some ''Bearer alice-token'', tokenEmail = Some ''alice@x.com'',
      decodedEmail = None\<rparr>
     = Inl 403"
proof -
  have fr: "find (\<lambda>u. email u = Some ''root@x.com'') [alice, root] = Some root"
    and rr: "role root = Some ''admin''"
    and fa: "find (\<lambda>u. email u = Some ''alice@x.com'') [alice, root] = Some alice"
    and ra: "role alice = Some ''user''"
    by (simp_all add: alice_def root_def)
  from verifyAdmin_forbidden_iff [OF verifyJWT_examples(1), of "[alice, root]"] fr rr
  have 1: "verifyAdmin [alice, root]
     \<lparr>authorization = Some ''Bearer root-token'', tokenEmail = Some ''root@x.com'',
      decodedEmail = None\<rparr>
     = Inr \<lparr>authorization = Some ''Bearer root-token'', tokenEmail = Some ''root@x.com'',
            decodedEmail = None\<rparr>"
    by simp
  from verifyAdmin_forbidden_iff [OF verifyJWT_examples(2), of "[alice, root]"] fa ra
  have 2: "verifyAdmin [alice, root]
     \<lparr>authorization = Some ''Bearer alice-token'', tokenEmail = Some ''alice@x.com'',
      decodedEmail = None\<rparr>
     = Inl 403"
    by simp
  from 1 2 fr rr fa ra verifyJWT_examples(1,2) show ?thesis by blast
qed

text \<open>
  The two earlier revisions read \<open>req.decodedEmail\<close>, which \<open>verifyJWT\<close> leaves
  unassigned: their \<open>verifyAdmin\<close> looks up the record without an email, whoever the
  principal is. They mount it on one route only, \<open>users/:id/role\<close>, a path without the
  leading slash of every request path, so that no request reaches it.
\<close>

lemma verifyAdmin_decodedEmail_after_verifyJWT:
  "verifyJWT verifyIdToken (incoming header) = Inr req \<Longrightarrow>
   verifyAdmin_decodedEmail users req =
     (case find (\<lambda>u. email u = None) users of
        None \<Rightarrow> Inl 403
      | Some u \<Rightarrow> if role u = Some ''admin'' then Inr req else Inl 403)"
proof -
  assume v: "verifyJWT verifyIdToken (incoming header) = Inr req"
  from verifyJWT_tokenEmail [OF v] have "req = (incoming header)\<lparr>tokenEmail := tokenEmail req\<rparr>"
    by simp
  then have "decodedEmail req = None"
    by (metis incoming_def request.select_convs(3) request.surjective request.update_convs(2))
  then show ?thesis
    by (simp add: verifyAdmin_decodedEmail_def split: option.splits)
qed

end
